theory Spec2Isabelle
  imports Main "HOL-Library.Word"
begin

section \<open>Delta ASDA-AB servo controller, JOG mode (servo\_control.py)\<close>

text \<open>
  A shallow embedding of class \<open>ServoController\<close>. The controller object is a record,
  each method takes the record and returns its result together with the updated record.
  Every method of the source wraps its body in \<open>try ... except Exception\<close>; in the
  model each call that can raise returns a sum, and the method maps \<open>Inl\<close> to the value
  its \<open>except\<close> branch returns. Console output is not modelled, except for the fault
  description that \<open>check_connection\<close> prints. Loading the configuration file, opening
  the serial port (\<open>connect\<close>) and the operator menu (\<open>main\<close>) are not modelled.
\<close>

subsection \<open>Class constants\<close>

definition JOG_STEP :: int where
  "JOG_STEP = 25"

definition REGISTERS :: "string \<rightharpoonup> int" where
  "REGISTERS = [''VERSION'' \<mapsto> 0, ''ERROR'' \<mapsto> 1, ''JOG'' \<mapsto> 1029]"

definition JOG_COMMANDS :: "string \<rightharpoonup> int" where
  "JOG_COMMANDS =
     [''FORWARD'' \<mapsto> 4999, ''REVERSE'' \<mapsto> 4998, ''STOP'' \<mapsto> 5000,
      ''SPEED_MIN'' \<mapsto> 0, ''SPEED_MAX'' \<mapsto> 3000]"

text \<open>
  \<open>self.REGISTERS[k]\<close> and \<open>self.JOG_COMMANDS[k]\<close>: the source only subscripts with
  literal keys that the dictionaries hold (lemmas \<open>REG_values\<close>, \<open>CMD_values\<close>), so
  the lookup never raises \<open>KeyError\<close>.
\<close>

definition REG :: "string \<Rightarrow> int" where
  "REG k = the (REGISTERS k)"

definition CMD :: "string \<Rightarrow> int" where
  "CMD k = the (JOG_COMMANDS k)"

subsection \<open>The transport\<close>

text \<open>
  The transport is the \<open>minimalmodbus.Instrument\<close> object, a library outside the
  repository: it performs a blocking read-register or write-register exchange given an
  address and, for writes, a 16-bit value, and it fails or returns a value. Its behaviour
  is a parameter of the model. Whether the \<open>n\<close>-th exchange on the bus is answered, and
  with which 16-bit value, is the field \<open>respond\<close>: \<open>None\<close> is a timeout or a
  malformed response (the library raises), \<open>Some w\<close> a valid response carrying the
  register value \<open>w\<close> (for a write the value is ignored). \<open>exchanges\<close> logs every
  request put on the bus, oldest first, with whether it was answered. A value to write
  that does not fit an unsigned 16-bit register is refused by the library with
  \<open>ValueError\<close> before anything is sent.
\<close>

datatype py_exception = AttributeError | ValueError | ModbusException

datatype request = Read int | Write int int

record modbus =
  respond :: "nat \<Rightarrow> 16 word option"
  exchanges :: "(request \<times> bool) list"

definition exchange :: "modbus \<Rightarrow> request \<Rightarrow> 16 word option \<times> modbus" where
  "exchange b r =
     (let answer = respond b (length (exchanges b))
      in (answer, b\<lparr>exchanges := exchanges b @ [(r, answer \<noteq> None)]\<rparr>))"

subsection \<open>Controller state\<close>

text \<open>
  \<open>current_direction\<close> is \<open>None\<close> (stopped), \<open>"forward"\<close> or \<open>"reverse"\<close> in the
  source. \<open>instrument\<close> is \<open>None\<close> until \<open>connect\<close> has created the transport object.
  The \<open>config\<close> attribute is only read by \<open>connect\<close> and is left out.
\<close>

datatype direction = Forward | Reverse

record controller =
  instrument :: "modbus option"
  current_speed :: int
  current_direction :: "direction option"

text \<open>\<open>__init__\<close>, after the configuration has been loaded.\<close>

definition ServoController_init :: controller where
  "ServoController_init =
     \<lparr>instrument = None, current_speed = 20, current_direction = None\<rparr>"

text \<open>
  \<open>self.instrument.read_register(addr, functioncode=3)\<close> and
  \<open>self.instrument.write_register(addr, value, functioncode=6)\<close>. With \<open>instrument\<close>
  still \<open>None\<close> the attribute access raises \<open>AttributeError\<close>.
\<close>

definition read_register :: "controller \<Rightarrow> int \<Rightarrow> (py_exception + int) \<times> controller" where
  "read_register c addr =
     (case instrument c of
        None \<Rightarrow> (Inl AttributeError, c)
      | Some b \<Rightarrow>
          (case exchange b (Read addr) of
             (None, b') \<Rightarrow> (Inl ModbusException, c\<lparr>instrument := Some b'\<rparr>)
           | (Some w, b') \<Rightarrow> (Inr (uint w), c\<lparr>instrument := Some b'\<rparr>)))"

definition write_register :: "controller \<Rightarrow> int \<Rightarrow> int \<Rightarrow> (py_exception + unit) \<times> controller" where
  "write_register c addr v =
     (case instrument c of
        None \<Rightarrow> (Inl AttributeError, c)
      | Some b \<Rightarrow>
          if v < 0 \<or> 65535 < v then (Inl ValueError, c)
          else (case exchange b (Write addr v) of
                  (None, b') \<Rightarrow> (Inl ModbusException, c\<lparr>instrument := Some b'\<rparr>)
                | (Some w, b') \<Rightarrow> (Inr (), c\<lparr>instrument := Some b'\<rparr>)))"

subsection \<open>Connection manager\<close>

text \<open>
  The local dictionary \<open>error_descriptions\<close> of \<open>check_connection\<close>. The texts are
  Russian; each is named here by a constructor, in the order of the source:
  1 overcurrent, 2 overvoltage, 3 undervoltage, 4 Z-pulse shift, 5 regeneration error,
  6 overload, 7 overspeed, 8 abnormal pulse control command, 9 excessive deviation,
  10 watchdog error, 13 emergency stop activated, 14 reverse limit error,
  15 forward limit error, 20 serial communication error, 23 overload warning; the default
  of \<open>.get\<close> is the text "unknown error".
\<close>

datatype description =
    Overcurrent | Overvoltage | Undervoltage | Z_pulse_shift | Regeneration_error
  | Overload | Overspeed | Abnormal_pulse_command | Excessive_deviation | Watchdog_error
  | Emergency_stop | Reverse_limit_error | Forward_limit_error
  | Serial_communication_error | Overload_warning | Unknown_error

definition error_descriptions :: "int \<rightharpoonup> description" where
  "error_descriptions =
     [1 \<mapsto> Overcurrent, 2 \<mapsto> Overvoltage, 3 \<mapsto> Undervoltage, 4 \<mapsto> Z_pulse_shift,
      5 \<mapsto> Regeneration_error, 6 \<mapsto> Overload, 7 \<mapsto> Overspeed,
      8 \<mapsto> Abnormal_pulse_command, 9 \<mapsto> Excessive_deviation, 10 \<mapsto> Watchdog_error,
      13 \<mapsto> Emergency_stop, 14 \<mapsto> Reverse_limit_error, 15 \<mapsto> Forward_limit_error,
      20 \<mapsto> Serial_communication_error, 23 \<mapsto> Overload_warning]"

text \<open>\<open>error_descriptions.get(error_code, "unknown error")\<close>\<close>

definition get_description :: "int \<Rightarrow> description" where
  "get_description error_code =
     (case error_descriptions error_code of Some d \<Rightarrow> d | None \<Rightarrow> Unknown_error)"

text \<open>
  \<open>check_connection\<close> returns a boolean; the second component of the model's result is
  the description it prints when the device reports a fault, \<open>None\<close> when it prints none.
\<close>

definition check_connection :: "controller \<Rightarrow> (bool \<times> description option) \<times> controller" where
  "check_connection c =
     (case read_register c (REG ''VERSION'') of
        (Inl e, c1) \<Rightarrow> ((False, None), c1)
      | (Inr version, c1) \<Rightarrow>
          (case read_register c1 (REG ''ERROR'') of
             (Inl e, c2) \<Rightarrow> ((False, None), c2)
           | (Inr error_code, c2) \<Rightarrow>
               if error_code = 0 then ((True, None), c2)
               else ((False, Some (get_description error_code)), c2)))"

subsection \<open>Speed controller and jog state machine\<close>

definition initialize_speed :: "controller \<Rightarrow> controller" where
  "initialize_speed c =
     (case read_register c (REG ''JOG'') of
        (Inl e, c1) \<Rightarrow> c1
      | (Inr speed, c1) \<Rightarrow>
          if speed \<le> CMD ''SPEED_MAX'' then c1\<lparr>current_speed := speed\<rparr> else c1)"

definition jog :: "controller \<Rightarrow> int \<Rightarrow> bool \<times> controller" where
  "jog c command =
     (case write_register c (REG ''JOG'') command of
        (Inl e, c1) \<Rightarrow> (False, c1)
      | (Inr u, c1) \<Rightarrow>
          (True,
           if command = CMD ''FORWARD'' then c1\<lparr>current_direction := Some Forward\<rparr>
           else if command = CMD ''REVERSE'' then c1\<lparr>current_direction := Some Reverse\<rparr>
           else if command = CMD ''STOP'' then c1\<lparr>current_direction := None\<rparr>
           else c1))"

definition set_jog_speed :: "controller \<Rightarrow> int \<Rightarrow> bool \<times> controller" where
  "set_jog_speed c requested =
     (let speed = (if requested < CMD ''SPEED_MIN'' then CMD ''SPEED_MIN''
                   else if requested > CMD ''SPEED_MAX'' then CMD ''SPEED_MAX''
                   else requested)
      in case write_register c (REG ''JOG'') speed of
           (Inl e, c1) \<Rightarrow> (False, c1)
         | (Inr u, c1) \<Rightarrow>
             (let c2 = c1\<lparr>current_speed := speed\<rparr>;
                  c3 = (if current_direction c2 = Some Forward
                        then snd (jog c2 (CMD ''FORWARD''))
                        else if current_direction c2 = Some Reverse
                        then snd (jog c2 (CMD ''REVERSE''))
                        else c2)
              in (True, c3)))"

text \<open>
  The methods take the step by keyword argument, \<open>increment=JOG_STEP\<close> and
  \<open>decrement=JOG_STEP\<close>; the model takes it explicitly.
\<close>

definition increase_speed :: "controller \<Rightarrow> int \<Rightarrow> bool \<times> controller" where
  "increase_speed c increment = set_jog_speed c (current_speed c + increment)"

definition decrease_speed :: "controller \<Rightarrow> int \<Rightarrow> bool \<times> controller" where
  "decrease_speed c decrement = set_jog_speed c (current_speed c - decrement)"

definition stop_jog :: "controller \<Rightarrow> bool \<times> controller" where
  "stop_jog c = jog (c\<lparr>current_direction := None\<rparr>) (CMD ''STOP'')"

text \<open>
  \<open>reset_speed_to_initial\<close> discards the result of \<open>set_jog_speed\<close>, which raises
  nothing, so its own \<open>except\<close> branch is never taken.
\<close>

definition reset_speed_to_initial :: "controller \<Rightarrow> bool \<times> controller" where
  "reset_speed_to_initial c = (True, snd (set_jog_speed c 20))"

definition close :: "controller \<Rightarrow> controller" where
  "close c =
     (case instrument c of
        None \<Rightarrow> c
      | Some b \<Rightarrow> snd (reset_speed_to_initial (snd (stop_jog c))))"

subsection \<open>Clients\<close>

text \<open>
  A client of the controller (the operator loop of \<open>main\<close>, or any other caller) is a
  sequence of method calls on one controller object; \<open>foldl step c calls\<close> is the
  controller after the calls.
\<close>

datatype call =
    Check_connection | Initialize_speed | Set_jog_speed int | Increase_speed int
  | Decrease_speed int | Jog int | Stop_jog | Reset_speed_to_initial | Close

fun step :: "controller \<Rightarrow> call \<Rightarrow> controller" where
  "step c Check_connection = snd (check_connection c)"
| "step c Initialize_speed = initialize_speed c"
| "step c (Set_jog_speed s) = snd (set_jog_speed c s)"
| "step c (Increase_speed i) = snd (increase_speed c i)"
| "step c (Decrease_speed d) = snd (decrease_speed c d)"
| "step c (Jog v) = snd (jog c v)"
| "step c Stop_jog = snd (stop_jog c)"
| "step c Reset_speed_to_initial = snd (reset_speed_to_initial c)"
| "step c Close = close c"

subsection \<open>Specification vocabulary\<close>

text \<open>
  The clamping function in the words of the specification: SPEED\_MIN (0) below the range,
  SPEED\_MAX (3000) above it, the request itself otherwise. It is compared with what
  \<open>set_jog_speed\<close> computes in lemma \<open>clamp_code\<close>.
\<close>

definition clamp_spec :: "int \<Rightarrow> int" where
  "clamp_spec s = (if s < 0 then 0 else if s > 3000 then 3000 else s)"

definition speed_in_range :: "controller \<Rightarrow> bool" where
  "speed_in_range c =
     (CMD ''SPEED_MIN'' \<le> current_speed c \<and> current_speed c \<le> CMD ''SPEED_MAX'')"

text \<open>
  Two transports for concrete runs, both with an empty log: one that never answers, and
  one that answers the first \<open>k\<close> exchanges with the value \<open>w\<close> and then falls silent.
\<close>

definition silent_bus :: modbus where
  "silent_bus = \<lparr>respond = (\<lambda>n. None), exchanges = []\<rparr>"

definition flaky_bus :: "nat \<Rightarrow> 16 word \<Rightarrow> modbus" where
  "flaky_bus k w = \<lparr>respond = (\<lambda>n. if n < k then Some w else None), exchanges = []\<rparr>"

subsection \<open>Values of the constants\<close>

lemma REG_values [simp]:
  "REG ''VERSION'' = 0" "REG ''ERROR'' = 1" "REG ''JOG'' = 1029"
  by (simp_all add: REG_def REGISTERS_def)

lemma CMD_values [simp]:
  "CMD ''FORWARD'' = 4999" "CMD ''REVERSE'' = 4998" "CMD ''STOP'' = 5000"
  "CMD ''SPEED_MIN'' = 0" "CMD ''SPEED_MAX'' = 3000"
  by (simp_all add: CMD_def JOG_COMMANDS_def)

lemma clamp_spec_range: "0 \<le> clamp_spec s \<and> clamp_spec s \<le> 3000"
  by (simp add: clamp_spec_def)

text \<open>The range check of \<open>set_jog_speed\<close> computes the specification's clamp.\<close>

lemma clamp_code:
  "(if s < CMD ''SPEED_MIN'' then CMD ''SPEED_MIN''
    else if s > CMD ''SPEED_MAX'' then CMD ''SPEED_MAX''
    else s) = clamp_spec s"
  by (simp add: clamp_spec_def)

subsection \<open>Register exchanges\<close>

lemma exchange_eq:
  "exchange b r =
     (respond b (length (exchanges b)),
      b\<lparr>exchanges := exchanges b @ [(r, respond b (length (exchanges b)) \<noteq> None)]\<rparr>)"
  by (simp add: exchange_def Let_def)

lemma exchanges_update_eqD:
  "b\<lparr>exchanges := xs\<rparr> = b\<lparr>exchanges := ys\<rparr> \<Longrightarrow> xs = ys"
  by (drule arg_cong [where f = exchanges]) simp

text \<open>A register write touches neither the speed nor the direction of the controller.\<close>

lemma write_register_frame:
  "current_speed (snd (write_register c a v)) = current_speed c \<and>
   current_direction (snd (write_register c a v)) = current_direction c"
  by (simp add: write_register_def exchange_eq split: option.splits prod.splits)

text \<open>
  When \<open>write_register\<close> raises: no transport object, a value outside the unsigned
  16-bit range, or an exchange that is not answered.
\<close>

lemma write_register_fails_iff:
  "isl (fst (write_register c a v)) \<longleftrightarrow>
     (case instrument c of
        None \<Rightarrow> True
      | Some b \<Rightarrow> v < 0 \<or> 65535 < v \<or> respond b (length (exchanges b)) = None)"
  by (simp add: write_register_def exchange_eq split: option.splits)

subsection \<open>The jog command\<close>

lemma jog_frame_speed: "current_speed (snd (jog c v)) = current_speed c"
proof -
  obtain r c1 where w: "write_register c (REG ''JOG'') v = (r, c1)"
    by (cases "write_register c (REG ''JOG'') v")
  then have "current_speed c1 = current_speed c"
    using write_register_frame [of c "REG ''JOG''" v] by simp
  with w show ?thesis
    by (cases r) (simp_all add: jog_def)
qed

lemma jog_failed:
  assumes "isl (fst (write_register c (REG ''JOG'') v))"
  shows "jog c v = (False, snd (write_register c (REG ''JOG'') v))"
proof -
  obtain r c1 where w: "write_register c (REG ''JOG'') v = (r, c1)"
    by (cases "write_register c (REG ''JOG'') v")
  with assms show ?thesis
    by (cases r) (simp_all add: jog_def)
qed

text \<open>\<open>stop_jog\<close> in closed form: the direction is cleared whatever the transport does.\<close>

lemma stop_jog_eq:
  "stop_jog c =
     (case instrument c of
        None \<Rightarrow> (False, c\<lparr>current_direction := None\<rparr>)
      | Some b \<Rightarrow>
          (respond b (length (exchanges b)) \<noteq> None,
           c\<lparr>instrument := Some (b\<lparr>exchanges := exchanges b @
                 [(Write (REG ''JOG'') (CMD ''STOP''), respond b (length (exchanges b)) \<noteq> None)]\<rparr>),
             current_direction := None\<rparr>))"
  by (auto simp: stop_jog_def jog_def write_register_def exchange_eq split: option.splits)

lemma stop_jog_speed: "current_speed (snd (stop_jog c)) = current_speed c"
  by (simp add: stop_jog_def jog_frame_speed)

subsection \<open>Setting the speed\<close>

lemma set_jog_speed_failed:
  assumes "isl (fst (write_register c (REG ''JOG'') (clamp_spec s)))"
  shows "set_jog_speed c s = (False, snd (write_register c (REG ''JOG'') (clamp_spec s)))"
proof -
  obtain r c1 where w: "write_register c (REG ''JOG'') (clamp_spec s) = (r, c1)"
    by (cases "write_register c (REG ''JOG'') (clamp_spec s)")
  with assms show ?thesis
    unfolding set_jog_speed_def clamp_code by (cases r) (simp_all add: Let_def)
qed

lemma set_jog_speed_stopped:
  assumes "instrument c = Some b" and "respond b (length (exchanges b)) = Some w"
    and "current_direction c = None"
  shows "set_jog_speed c s =
     (True, c\<lparr>instrument := Some (b\<lparr>exchanges :=
                  exchanges b @ [(Write (REG ''JOG'') (clamp_spec s), True)]\<rparr>),
              current_speed := clamp_spec s\<rparr>)"
proof -
  have "write_register c (REG ''JOG'') (clamp_spec s) =
      (Inr (), c\<lparr>instrument := Some (b\<lparr>exchanges :=
                  exchanges b @ [(Write (REG ''JOG'') (clamp_spec s), True)]\<rparr>)\<rparr>)"
    using assms clamp_spec_range [of s] by (simp add: write_register_def exchange_eq)
  with assms(3) show ?thesis
    unfolding set_jog_speed_def clamp_code by (simp add: Let_def)
qed

lemma set_jog_speed_moving:
  assumes "instrument c = Some b" and "respond b (length (exchanges b)) = Some w"
    and "current_direction c = Some d"
  shows "set_jog_speed c s =
     (True, c\<lparr>instrument := Some (b\<lparr>exchanges :=
                  exchanges b @
                  [(Write (REG ''JOG'') (clamp_spec s), True),
                   (Write (REG ''JOG'')
                      (case d of Forward \<Rightarrow> CMD ''FORWARD'' | Reverse \<Rightarrow> CMD ''REVERSE''),
                    respond b (Suc (length (exchanges b))) \<noteq> None)]\<rparr>),
              current_speed := clamp_spec s\<rparr>)"
proof -
  have "write_register c (REG ''JOG'') (clamp_spec s) =
      (Inr (), c\<lparr>instrument := Some (b\<lparr>exchanges :=
                  exchanges b @ [(Write (REG ''JOG'') (clamp_spec s), True)]\<rparr>)\<rparr>)"
    using assms clamp_spec_range [of s] by (simp add: write_register_def exchange_eq)
  with assms show ?thesis
    unfolding set_jog_speed_def clamp_code
    by (cases d; cases "respond b (Suc (length (exchanges b)))")
       (simp_all add: jog_def write_register_def exchange_eq Let_def)
qed

lemma set_jog_speed_speed:
  "current_speed (snd (set_jog_speed c s)) = current_speed c \<or>
   current_speed (snd (set_jog_speed c s)) = clamp_spec s"
proof (cases "isl (fst (write_register c (REG ''JOG'') (clamp_spec s)))")
  case True
  then show ?thesis
    using write_register_frame [of c "REG ''JOG''" "clamp_spec s"]
    by (simp add: set_jog_speed_failed)
next
  case False
  then obtain b w where b: "instrument c = Some b" "respond b (length (exchanges b)) = Some w"
    by (auto simp: write_register_fails_iff split: option.splits)
  show ?thesis
  proof (cases "current_direction c")
    case None
    with b show ?thesis by (simp add: set_jog_speed_stopped)
  next
    case (Some d)
    with b show ?thesis by (simp add: set_jog_speed_moving)
  qed
qed

subsection \<open>The speed bound, method by method\<close>

lemma set_jog_speed_in_range:
  "speed_in_range c \<Longrightarrow> speed_in_range (snd (set_jog_speed c s))"
  using set_jog_speed_speed [of c s] clamp_spec_range [of s]
  by (auto simp: speed_in_range_def)

text \<open>A value read from a register is an unsigned 16-bit number, so it is never negative.\<close>

lemma initialize_speed_in_range:
  "speed_in_range c \<Longrightarrow> speed_in_range (initialize_speed c)"
  by (simp add: speed_in_range_def initialize_speed_def read_register_def exchange_eq
      split: option.splits)

lemma check_connection_speed:
  "current_speed (snd (check_connection c)) = current_speed c"
  by (simp add: check_connection_def read_register_def exchange_eq split: option.splits)

lemma close_in_range: "speed_in_range c \<Longrightarrow> speed_in_range (close c)"
proof (cases "instrument c")
  case None
  assume "speed_in_range c"
  with None show ?thesis by (simp add: close_def)
next
  case (Some b)
  assume "speed_in_range c"
  then have "speed_in_range (snd (stop_jog c))"
    by (simp add: speed_in_range_def stop_jog_speed)
  then show ?thesis
    using Some by (simp add: close_def reset_speed_to_initial_def set_jog_speed_in_range)
qed

lemma step_in_range: "speed_in_range c \<Longrightarrow> speed_in_range (step c x)"
proof (cases x)
  case Check_connection
  assume "speed_in_range c"
  with Check_connection show ?thesis by (simp add: speed_in_range_def check_connection_speed)
next
  case (Jog v)
  assume "speed_in_range c"
  with Jog show ?thesis by (simp add: speed_in_range_def jog_frame_speed)
next
  case Stop_jog
  assume "speed_in_range c"
  with Stop_jog show ?thesis by (simp add: speed_in_range_def stop_jog_speed)
qed (simp_all add: initialize_speed_in_range set_jog_speed_in_range increase_speed_def
       decrease_speed_def reset_speed_to_initial_def close_in_range)

subsection \<open>The error catalog\<close>

lemma get_description_values:
  "get_description 1 = Overcurrent" "get_description 2 = Overvoltage"
  "get_description 3 = Undervoltage" "get_description 4 = Z_pulse_shift"
  "get_description 5 = Regeneration_error" "get_description 6 = Overload"
  "get_description 7 = Overspeed" "get_description 8 = Abnormal_pulse_command"
  "get_description 9 = Excessive_deviation" "get_description 10 = Watchdog_error"
  "get_description 13 = Emergency_stop" "get_description 14 = Reverse_limit_error"
  "get_description 15 = Forward_limit_error" "get_description 20 = Serial_communication_error"
  "get_description 23 = Overload_warning"
  by (simp_all add: get_description_def error_descriptions_def)

lemma get_description_unknown:
  "code \<notin> {1, 2, 3, 4, 5, 6, 7, 8, 9, 10, 13, 14, 15, 20, 23} \<Longrightarrow>
   get_description code = Unknown_error"
  by (simp add: get_description_def error_descriptions_def)

lemma check_connection_answered:
  assumes "instrument c = Some b" and "respond b (length (exchanges b)) = Some w"
    and "respond b (Suc (length (exchanges b))) = Some e"
  shows "check_connection c =
     ((e = 0, if e = 0 then None else Some (get_description (uint e))),
      c\<lparr>instrument := Some (b\<lparr>exchanges := exchanges b @
           [(Read (REG ''VERSION''), True), (Read (REG ''ERROR''), True)]\<rparr>)\<rparr>)"
  using assms by (simp add: check_connection_def read_register_def exchange_eq uint_0_iff)

lemma check_connection_success_iff:
  "fst (fst (check_connection c)) \<longleftrightarrow>
     (\<exists>b w. instrument c = Some b \<and> respond b (length (exchanges b)) = Some w \<and>
            respond b (Suc (length (exchanges b))) = Some 0)"
  by (auto simp: check_connection_def read_register_def exchange_eq uint_0_iff
      split: option.splits)

text \<open>
  \<open>check_connection\<close> in closed form: which registers it reads, in which order, and
  what it returns, for every behaviour of the transport.
\<close>

lemma check_connection_eq:
  "check_connection c =
     (case instrument c of
        None \<Rightarrow> ((False, None), c)
      | Some b \<Rightarrow>
          (case respond b (length (exchanges b)) of
             None \<Rightarrow>
               ((False, None),
                c\<lparr>instrument := Some (b\<lparr>exchanges := exchanges b @
                     [(Read (REG ''VERSION''), False)]\<rparr>)\<rparr>)
           | Some w \<Rightarrow>
               (case respond b (Suc (length (exchanges b))) of
                  None \<Rightarrow>
                    ((False, None),
                     c\<lparr>instrument := Some (b\<lparr>exchanges := exchanges b @
                          [(Read (REG ''VERSION''), True), (Read (REG ''ERROR''), False)]\<rparr>)\<rparr>)
                | Some e \<Rightarrow>
                    ((e = 0, if e = 0 then None else Some (get_description (uint e))),
                     c\<lparr>instrument := Some (b\<lparr>exchanges := exchanges b @
                          [(Read (REG ''VERSION''), True), (Read (REG ''ERROR''), True)]\<rparr>)\<rparr>))))"
  by (simp add: check_connection_def read_register_def exchange_eq uint_0_iff
      split: option.splits)

section \<open>Properties of the controller\<close>

text \<open>
  C1, as amended. When the register write of \<open>jog\<close> raises (no transport object, a value
  that does not fit the register, no answer), \<open>jog\<close> returns \<open>False\<close> and leaves
  \<open>current_speed\<close> and \<open>current_direction\<close> as they were. When the speed write of
  \<open>set_jog_speed\<close> raises, \<open>set_jog_speed\<close> returns \<open>False\<close> and leaves both as they
  were. When the write of \<open>stop_jog\<close> raises, \<open>stop_jog\<close> returns \<open>False\<close> and leaves
  \<open>current_speed\<close> as it was, but \<open>current_direction\<close> is Stopped: the method clears
  it before it writes.
\<close>

theorem failed_write_reported:
  "(isl (fst (write_register c (REG ''JOG'') v)) \<longrightarrow>
      fst (jog c v) = False \<and>
      current_speed (snd (jog c v)) = current_speed c \<and>
      current_direction (snd (jog c v)) = current_direction c) \<and>
   (isl (fst (write_register c (REG ''JOG'') (clamp_spec s))) \<longrightarrow>
      fst (set_jog_speed c s) = False \<and>
      current_speed (snd (set_jog_speed c s)) = current_speed c \<and>
      current_direction (snd (set_jog_speed c s)) = current_direction c) \<and>
   (isl (fst (write_register c (REG ''JOG'') (CMD ''STOP''))) \<longrightarrow>
      fst (stop_jog c) = False \<and>
      current_speed (snd (stop_jog c)) = current_speed c \<and>
      current_direction (snd (stop_jog c)) = None)"
proof (intro conjI impI)
  assume f: "isl (fst (write_register c (REG ''JOG'') v))"
  show "fst (jog c v) = False" using f by (simp add: jog_failed)
  show "current_speed (snd (jog c v)) = current_speed c"
    using f write_register_frame [of c "REG ''JOG''" v] by (simp add: jog_failed)
  show "current_direction (snd (jog c v)) = current_direction c"
    using f write_register_frame [of c "REG ''JOG''" v] by (simp add: jog_failed)
next
  assume f: "isl (fst (write_register c (REG ''JOG'') (clamp_spec s)))"
  show "fst (set_jog_speed c s) = False" using f by (simp add: set_jog_speed_failed)
  show "current_speed (snd (set_jog_speed c s)) = current_speed c"
    using f write_register_frame [of c "REG ''JOG''" "clamp_spec s"]
    by (simp add: set_jog_speed_failed)
  show "current_direction (snd (set_jog_speed c s)) = current_direction c"
    using f write_register_frame [of c "REG ''JOG''" "clamp_spec s"]
    by (simp add: set_jog_speed_failed)
next
  let ?c = "c\<lparr>current_direction := None\<rparr>"
  assume "isl (fst (write_register c (REG ''JOG'') (CMD ''STOP'')))"
  then have f: "isl (fst (write_register ?c (REG ''JOG'') (CMD ''STOP'')))"
    by (simp add: write_register_fails_iff)
  show "fst (stop_jog c) = False" using f by (simp add: stop_jog_def jog_failed)
  show "current_speed (snd (stop_jog c)) = current_speed c"
    by (simp add: stop_jog_def jog_frame_speed)
  show "current_direction (snd (stop_jog c)) = None"
    using f write_register_frame [of ?c "REG ''JOG''" "CMD ''STOP''"]
    by (simp add: stop_jog_def jog_failed)
qed

text \<open>
  The three writes on a transport that never answers, from a controller that runs in
  reverse at speed 45.
\<close>

theorem failed_write_reported_witness:
  "isl (fst (write_register \<lparr>instrument = Some silent_bus, current_speed = 45,
                              current_direction = Some Reverse\<rparr> (REG ''JOG'') 4999)) \<and>
   isl (fst (write_register \<lparr>instrument = Some silent_bus, current_speed = 45,
                              current_direction = Some Reverse\<rparr> (REG ''JOG'') (clamp_spec 100))) \<and>
   isl (fst (write_register \<lparr>instrument = Some silent_bus, current_speed = 45,
                              current_direction = Some Reverse\<rparr> (REG ''JOG'') (CMD ''STOP''))) \<and>
   fst (jog \<lparr>instrument = Some silent_bus, current_speed = 45,
             current_direction = Some Reverse\<rparr> 4999) = False \<and>
   current_direction (snd (jog \<lparr>instrument = Some silent_bus, current_speed = 45,
             current_direction = Some Reverse\<rparr> 4999)) = Some Reverse \<and>
   fst (set_jog_speed \<lparr>instrument = Some silent_bus, current_speed = 45,
             current_direction = Some Reverse\<rparr> 100) = False \<and>
   current_speed (snd (set_jog_speed \<lparr>instrument = Some silent_bus, current_speed = 45,
             current_direction = Some Reverse\<rparr> 100)) = 45 \<and>
   fst (stop_jog \<lparr>instrument = Some silent_bus, current_speed = 45,
             current_direction = Some Reverse\<rparr>) = False \<and>
   current_direction (snd (stop_jog \<lparr>instrument = Some silent_bus, current_speed = 45,
             current_direction = Some Reverse\<rparr>)) = None"
proof -
  let ?c = "\<lparr>instrument = Some silent_bus, current_speed = 45,
             current_direction = Some Reverse\<rparr>"
  have h: "isl (fst (write_register ?c (REG ''JOG'') v))" for v
    by (simp add: write_register_fails_iff silent_bus_def)
  show ?thesis
    using failed_write_reported [of ?c 4999 100] h [of 4999] h [of "clamp_spec 100"]
      h [of "CMD ''STOP''"]
    by simp
qed

text \<open>
  C1 as written fails twice. With the controller moving forward and a transport that
  never answers, the write of \<open>stop_jog\<close> fails, \<open>stop_jog\<close> returns \<open>False\<close>, and
  \<open>current_direction\<close> has changed from Forward to Stopped. With a transport that
  answers one exchange and then falls silent, \<open>set_jog_speed 100\<close> on a controller moving
  forward writes the speed, fails to write the FORWARD command again, and still returns
  \<open>True\<close>.
\<close>

theorem failed_write_counterexample:
  "isl (fst (write_register \<lparr>instrument = Some silent_bus, current_speed = 20,
                  current_direction = Some Forward\<rparr> (REG ''JOG'') (CMD ''STOP''))) \<and>
   fst (stop_jog \<lparr>instrument = Some silent_bus, current_speed = 20,
                  current_direction = Some Forward\<rparr>) = False \<and>
   current_direction (snd (stop_jog \<lparr>instrument = Some silent_bus, current_speed = 20,
                  current_direction = Some Forward\<rparr>)) = None \<and>
   set_jog_speed \<lparr>instrument = Some (flaky_bus 1 0), current_speed = 20,
                  current_direction = Some Forward\<rparr> 100 =
     (True, \<lparr>instrument = Some ((flaky_bus 1 0)\<lparr>exchanges :=
                 [(Write 1029 100, True), (Write 1029 4999, False)]\<rparr>),
             current_speed = 100, current_direction = Some Forward\<rparr>)"
  by (simp add: stop_jog_def jog_def set_jog_speed_def write_register_def exchange_eq
      silent_bus_def flaky_bus_def Let_def)

text \<open>
  C2. Whenever the speed write is answered, \<open>set_jog_speed c s\<close> returns \<open>True\<close>
  whatever the requested \<open>s\<close> (no error for a request out of range), stores
  \<open>clamp_spec s\<close> in \<open>current_speed\<close>, and the first request it puts on the bus is the
  write of \<open>clamp_spec s\<close> to the JOG register; that value lies in 0..3000 and is none of
  the command codes.
\<close>

theorem set_jog_speed_clamps:
  assumes "instrument c = Some b" and "respond b (length (exchanges b)) = Some w"
  shows "fst (set_jog_speed c s) = True \<and>
         current_speed (snd (set_jog_speed c s)) = clamp_spec s \<and>
         (\<exists>b'. instrument (snd (set_jog_speed c s)) = Some b' \<and>
               take (Suc (length (exchanges b))) (exchanges b') =
                 exchanges b @ [(Write (REG ''JOG'') (clamp_spec s), True)]) \<and>
         CMD ''SPEED_MIN'' \<le> clamp_spec s \<and> clamp_spec s \<le> CMD ''SPEED_MAX'' \<and>
         clamp_spec s \<notin> {CMD ''FORWARD'', CMD ''REVERSE'', CMD ''STOP''}"
proof (cases "current_direction c")
  case None
  with assms show ?thesis
    using clamp_spec_range [of s] by (simp add: set_jog_speed_stopped)
next
  case (Some d)
  with assms show ?thesis
    using clamp_spec_range [of s] by (simp add: set_jog_speed_moving)
qed

text \<open>Requests of 5000 and of -5 on a stopped controller: 3000 and 0 are stored.\<close>

theorem set_jog_speed_clamps_witness:
  "set_jog_speed \<lparr>instrument = Some (flaky_bus 5 0), current_speed = 20,
                   current_direction = None\<rparr> 5000 =
     (True, \<lparr>instrument = Some ((flaky_bus 5 0)\<lparr>exchanges := [(Write 1029 3000, True)]\<rparr>),
             current_speed = 3000, current_direction = None\<rparr>) \<and>
   clamp_spec 5000 = 3000 \<and> clamp_spec (-5) = 0 \<and>
   current_speed (snd (set_jog_speed \<lparr>instrument = Some (flaky_bus 5 0), current_speed = 20,
                   current_direction = None\<rparr> (-5))) = 0"
proof -
  let ?c = "\<lparr>instrument = Some (flaky_bus 5 0), current_speed = 20,
                   current_direction = None\<rparr>"
  have a: "instrument ?c = Some (flaky_bus 5 0)" by simp
  have r: "respond (flaky_bus 5 0) (length (exchanges (flaky_bus 5 0))) = Some 0"
    by (simp add: flaky_bus_def)
  have "set_jog_speed ?c 5000 =
     (True, \<lparr>instrument = Some ((flaky_bus 5 0)\<lparr>exchanges := [(Write 1029 3000, True)]\<rparr>),
             current_speed = 3000, current_direction = None\<rparr>)"
    by (simp add: set_jog_speed_def write_register_def exchange_eq flaky_bus_def Let_def)
  then show ?thesis
    using set_jog_speed_clamps [OF a r, of "-5"] set_jog_speed_clamps [OF a r, of 5000]
    by (simp add: clamp_spec_def)
qed

text \<open>
  C3. \<open>initialize_speed\<close> reads the JOG register once. When the read is answered with
  \<open>w\<close>, the value is adopted as \<open>current_speed\<close> if it is at most SPEED\_MAX, and
  otherwise discarded: \<open>current_speed\<close> keeps its value, which at startup is the seed 20.
\<close>

theorem initialize_speed_adopts_speed_only:
  assumes "instrument c = Some b" and "respond b (length (exchanges b)) = Some w"
  shows "initialize_speed c =
           c\<lparr>instrument := Some (b\<lparr>exchanges := exchanges b @ [(Read (REG ''JOG''), True)]\<rparr>),
             current_speed := (if uint w \<le> CMD ''SPEED_MAX'' then uint w else current_speed c)\<rparr> \<and>
         (current_speed c = 20 \<longrightarrow>
            current_speed (initialize_speed c) =
              (if uint w \<le> CMD ''SPEED_MAX'' then uint w else 20))"
  using assms by (simp add: initialize_speed_def read_register_def exchange_eq)

text \<open>A fresh controller reading back 4999 keeps 20; reading back 150 it adopts 150.\<close>

theorem initialize_speed_adopts_speed_only_witness:
  "current_speed (initialize_speed
      (ServoController_init\<lparr>instrument := Some (flaky_bus 1 4999)\<rparr>)) = 20 \<and>
   current_speed (initialize_speed
      (ServoController_init\<lparr>instrument := Some (flaky_bus 1 150)\<rparr>)) = 150"
proof -
  have r: "respond (flaky_bus 1 w) (length (exchanges (flaky_bus 1 w))) = Some w" for w
    by (simp add: flaky_bus_def)
  have a: "instrument (ServoController_init\<lparr>instrument := Some (flaky_bus 1 w)\<rparr>) =
      Some (flaky_bus 1 w)" for w
    by simp
  show ?thesis
    using initialize_speed_adopts_speed_only [OF a r, of 4999]
      initialize_speed_adopts_speed_only [OF a r, of 150]
    by (simp add: ServoController_init_def)
qed

text \<open>
  C4. The reserved JOG command codes are FORWARD = 4999, REVERSE = 4998 and STOP = 5000,
  the speed range is 0 to 3000, and each command code is strictly greater than SPEED\_MAX:
  no value of the speed range is a command code.
\<close>

theorem command_codes_above_speed_range:
  "JOG_COMMANDS ''FORWARD'' = Some 4999 \<and> JOG_COMMANDS ''REVERSE'' = Some 4998 \<and>
   JOG_COMMANDS ''STOP'' = Some 5000 \<and>
   JOG_COMMANDS ''SPEED_MIN'' = Some 0 \<and> JOG_COMMANDS ''SPEED_MAX'' = Some 3000 \<and>
   CMD ''SPEED_MAX'' < CMD ''FORWARD'' \<and> CMD ''SPEED_MAX'' < CMD ''REVERSE'' \<and>
   CMD ''SPEED_MAX'' < CMD ''STOP'' \<and>
   {CMD ''SPEED_MIN'' .. CMD ''SPEED_MAX''} \<inter> {CMD ''FORWARD'', CMD ''REVERSE'', CMD ''STOP''} = {}"
  by (simp add: JOG_COMMANDS_def CMD_def)

text \<open>
  C5. When \<open>set_jog_speed\<close> is called while the controller moves in direction \<open>d\<close> and
  the speed write is answered, it puts exactly two writes to the JOG register on the bus,
  in this order: the clamped speed, then the command code of \<open>d\<close> (logged with whether it
  was answered). It returns \<open>True\<close> and the direction after the call is \<open>d\<close>.
\<close>

theorem set_jog_speed_reasserts_direction:
  assumes "instrument c = Some b" and "current_direction c = Some d"
    and "respond b (length (exchanges b)) = Some w"
  shows "set_jog_speed c s =
     (True, c\<lparr>instrument := Some (b\<lparr>exchanges :=
                  exchanges b @
                  [(Write (REG ''JOG'') (clamp_spec s), True),
                   (Write (REG ''JOG'')
                      (case d of Forward \<Rightarrow> CMD ''FORWARD'' | Reverse \<Rightarrow> CMD ''REVERSE''),
                    respond b (Suc (length (exchanges b))) \<noteq> None)]\<rparr>),
              current_speed := clamp_spec s\<rparr>) \<and>
     current_direction (snd (set_jog_speed c s)) = Some d"
  using assms by (simp add: set_jog_speed_moving)

text \<open>
  The scenario of the specification: \<open>jog(FORWARD)\<close>, then \<open>set_jog_speed(100)\<close>: the
  bus sees 4999, then 100, then 4999 again, and the direction stays Forward.
\<close>

theorem set_jog_speed_reasserts_direction_witness:
  "jog (ServoController_init\<lparr>instrument := Some (flaky_bus 3 0)\<rparr>) (CMD ''FORWARD'') =
     (True, \<lparr>instrument = Some ((flaky_bus 3 0)\<lparr>exchanges := [(Write 1029 4999, True)]\<rparr>),
             current_speed = 20, current_direction = Some Forward\<rparr>) \<and>
   set_jog_speed \<lparr>instrument = Some ((flaky_bus 3 0)\<lparr>exchanges := [(Write 1029 4999, True)]\<rparr>),
                  current_speed = 20, current_direction = Some Forward\<rparr> 100 =
     (True, \<lparr>instrument = Some ((flaky_bus 3 0)\<lparr>exchanges :=
                 [(Write 1029 4999, True), (Write 1029 100, True), (Write 1029 4999, True)]\<rparr>),
             current_speed = 100, current_direction = Some Forward\<rparr>)"
proof -
  let ?b = "(flaky_bus 3 0)\<lparr>exchanges := [(Write 1029 4999, True)]\<rparr>"
  let ?c = "\<lparr>instrument = Some ?b, current_speed = 20, current_direction = Some Forward\<rparr>"
  have a: "instrument ?c = Some ?b" and d: "current_direction ?c = Some Forward" by simp_all
  have r: "respond ?b (length (exchanges ?b)) = Some 0" by (simp add: flaky_bus_def)
  have j: "jog (ServoController_init\<lparr>instrument := Some (flaky_bus 3 0)\<rparr>) (CMD ''FORWARD'') =
      (True, ?c)"
    by (simp add: jog_def write_register_def exchange_eq flaky_bus_def ServoController_init_def)
  show ?thesis
    using set_jog_speed_reasserts_direction [OF a d r, of 100] j
    by (simp add: clamp_spec_def flaky_bus_def)
qed

text \<open>
  C6. \<open>current_speed\<close> is always in [SPEED\_MIN, SPEED\_MAX] = [0, 3000]: the constructor
  sets it to 20, and from a controller within the bound every sequence of method calls
  (with any transport behaviour) ends in a controller within the bound.
\<close>

theorem current_speed_always_in_range:
  "speed_in_range ServoController_init \<and>
   (speed_in_range c \<longrightarrow> speed_in_range (foldl step c calls))"
proof
  show "speed_in_range ServoController_init"
    by (simp add: speed_in_range_def ServoController_init_def)
  show "speed_in_range c \<longrightarrow> speed_in_range (foldl step c calls)"
    by (induction calls arbitrary: c) (simp_all add: step_in_range)
qed

text \<open>
  A session on a device whose registers all read 5000: the read-back is discarded, the
  speed goes down to 0, then up to the maximum, and stays there.
\<close>

theorem current_speed_always_in_range_witness:
  "speed_in_range (ServoController_init\<lparr>instrument := Some (flaky_bus 9 5000)\<rparr>) \<and>
   speed_in_range (foldl step (ServoController_init\<lparr>instrument := Some (flaky_bus 9 5000)\<rparr>)
      [Initialize_speed, Decrease_speed 25, Jog 4999, Set_jog_speed 5000, Increase_speed 25,
       Close]) \<and>
   current_speed (foldl step (ServoController_init\<lparr>instrument := Some (flaky_bus 9 5000)\<rparr>)
      [Initialize_speed, Decrease_speed 25, Jog 4999, Set_jog_speed 5000, Increase_speed 25]) =
     3000"
proof -
  let ?c = "ServoController_init\<lparr>instrument := Some (flaky_bus 9 5000)\<rparr>"
  have h: "speed_in_range ?c"
    by (simp add: speed_in_range_def ServoController_init_def)
  have "current_speed (foldl step ?c
      [Initialize_speed, Decrease_speed 25, Jog 4999, Set_jog_speed 5000, Increase_speed 25]) =
      3000"
    by (simp add: ServoController_init_def flaky_bus_def initialize_speed_def read_register_def
        exchange_eq decrease_speed_def increase_speed_def set_jog_speed_def jog_def
        write_register_def Let_def)
  then show ?thesis
    using h current_speed_always_in_range
      [of ?c "[Initialize_speed, Decrease_speed 25, Jog 4999, Set_jog_speed 5000,
               Increase_speed 25, Close]"]
    by simp
qed

text \<open>
  C7. \<open>check_connection\<close> reads the VERSION register and then the ERROR register (the
  second only when the first read is answered), and nothing else goes on the bus. It
  succeeds if and only if both reads are answered and the ERROR value is zero. When both
  are answered and the ERROR value \<open>e\<close> is not zero, the result is failure and the
  description printed is the catalog's entry for \<open>e\<close>: a fixed description for each of
  the codes 1 to 10, 13, 14, 15, 20 and 23 (overspeed for 7), the unknown-error
  description for every other code.
\<close>

theorem check_connection_fault_codes:
  "check_connection c =
     (case instrument c of
        None \<Rightarrow> ((False, None), c)
      | Some b0 \<Rightarrow>
          (case respond b0 (length (exchanges b0)) of
             None \<Rightarrow>
               ((False, None),
                c\<lparr>instrument := Some (b0\<lparr>exchanges := exchanges b0 @
                     [(Read (REG ''VERSION''), False)]\<rparr>)\<rparr>)
           | Some version \<Rightarrow>
               (case respond b0 (Suc (length (exchanges b0))) of
                  None \<Rightarrow>
                    ((False, None),
                     c\<lparr>instrument := Some (b0\<lparr>exchanges := exchanges b0 @
                          [(Read (REG ''VERSION''), True), (Read (REG ''ERROR''), False)]\<rparr>)\<rparr>)
                | Some error_code \<Rightarrow>
                    ((error_code = 0,
                      if error_code = 0 then None
                      else Some (get_description (uint error_code))),
                     c\<lparr>instrument := Some (b0\<lparr>exchanges := exchanges b0 @
                          [(Read (REG ''VERSION''), True), (Read (REG ''ERROR''), True)]\<rparr>)\<rparr>)))) \<and>
   (fst (fst (check_connection c)) \<longleftrightarrow>
     (\<exists>b w. instrument c = Some b \<and> respond b (length (exchanges b)) = Some w \<and>
            respond b (Suc (length (exchanges b))) = Some 0)) \<and>
   (fst (fst (check_connection c)) \<longleftrightarrow>
     (\<exists>b. instrument c = Some b \<and>
          instrument (snd (check_connection c)) =
            Some (b\<lparr>exchanges := exchanges b @
                    [(Read (REG ''VERSION''), True), (Read (REG ''ERROR''), True)]\<rparr>) \<and>
          respond b (Suc (length (exchanges b))) = Some 0)) \<and>
   (instrument c = Some b \<and> respond b (length (exchanges b)) = Some w \<and>
    respond b (Suc (length (exchanges b))) = Some e \<and> e \<noteq> 0 \<longrightarrow>
      fst (check_connection c) = (False, Some (get_description (uint e))) \<and>
      snd (check_connection c) =
        c\<lparr>instrument := Some (b\<lparr>exchanges := exchanges b @
             [(Read (REG ''VERSION''), True), (Read (REG ''ERROR''), True)]\<rparr>)\<rparr>) \<and>
   get_description 1 = Overcurrent \<and> get_description 2 = Overvoltage \<and>
   get_description 3 = Undervoltage \<and> get_description 4 = Z_pulse_shift \<and>
   get_description 5 = Regeneration_error \<and> get_description 6 = Overload \<and>
   get_description 7 = Overspeed \<and> get_description 8 = Abnormal_pulse_command \<and>
   get_description 9 = Excessive_deviation \<and> get_description 10 = Watchdog_error \<and>
   get_description 13 = Emergency_stop \<and> get_description 14 = Reverse_limit_error \<and>
   get_description 15 = Forward_limit_error \<and>
   get_description 20 = Serial_communication_error \<and>
   get_description 23 = Overload_warning \<and>
   (code \<notin> {1, 2, 3, 4, 5, 6, 7, 8, 9, 10, 13, 14, 15, 20, 23} \<longrightarrow>
      get_description code = Unknown_error)"
proof -
  have logged: "fst (fst (check_connection c)) \<longleftrightarrow>
     (\<exists>b. instrument c = Some b \<and>
          instrument (snd (check_connection c)) =
            Some (b\<lparr>exchanges := exchanges b @
                    [(Read (REG ''VERSION''), True), (Read (REG ''ERROR''), True)]\<rparr>) \<and>
          respond b (Suc (length (exchanges b))) = Some 0)"
    by (auto simp: check_connection_eq split: option.splits dest!: exchanges_update_eqD)
  have faulted: "fst (check_connection c) = (False, Some (get_description (uint e))) \<and>
      snd (check_connection c) =
        c\<lparr>instrument := Some (b\<lparr>exchanges := exchanges b @
             [(Read (REG ''VERSION''), True), (Read (REG ''ERROR''), True)]\<rparr>)\<rparr>"
    if "instrument c = Some b" "respond b (length (exchanges b)) = Some w"
      "respond b (Suc (length (exchanges b))) = Some e" "e \<noteq> 0"
    using that by (simp add: check_connection_answered)
  then have faulted':
    "instrument c = Some b \<and> respond b (length (exchanges b)) = Some w \<and>
     respond b (Suc (length (exchanges b))) = Some e \<and> e \<noteq> 0 \<longrightarrow>
       fst (check_connection c) = (False, Some (get_description (uint e))) \<and>
       snd (check_connection c) =
         c\<lparr>instrument := Some (b\<lparr>exchanges := exchanges b @
              [(Read (REG ''VERSION''), True), (Read (REG ''ERROR''), True)]\<rparr>)\<rparr>"
    by blast
  have unknown: "code \<notin> {1, 2, 3, 4, 5, 6, 7, 8, 9, 10, 13, 14, 15, 20, 23} \<longrightarrow>
      get_description code = Unknown_error"
    using get_description_unknown [of code] by blast
  show ?thesis
    by (intro conjI check_connection_eq check_connection_success_iff logged faulted' unknown
        get_description_values)
qed

text \<open>
  The scenario of the specification: the ERROR register reads 7, the check fails with
  the overspeed description, after a read of register 0 and a read of register 1. Code 11
  is not in the catalog.
\<close>

theorem check_connection_fault_codes_witness:
  "check_connection (ServoController_init\<lparr>instrument := Some (flaky_bus 2 7)\<rparr>) =
     ((False, Some Overspeed),
      \<lparr>instrument = Some ((flaky_bus 2 7)\<lparr>exchanges := [(Read 0, True), (Read 1, True)]\<rparr>),
       current_speed = 20, current_direction = None\<rparr>) \<and>
   (11::int) \<notin> {1, 2, 3, 4, 5, 6, 7, 8, 9, 10, 13, 14, 15, 20, 23} \<and>
   get_description 11 = Unknown_error"
proof -
  let ?b = "flaky_bus 2 7"
  let ?c = "ServoController_init\<lparr>instrument := Some ?b\<rparr>"
  have h: "instrument ?c = Some ?b \<and> respond ?b (length (exchanges ?b)) = Some 7 \<and>
           respond ?b (Suc (length (exchanges ?b))) = Some 7 \<and> (7 :: 16 word) \<noteq> 0"
    by (simp add: flaky_bus_def)
  have "fst (check_connection ?c) = (False, Some (get_description (uint (7 :: 16 word)))) \<and>
      snd (check_connection ?c) =
        ?c\<lparr>instrument := Some (?b\<lparr>exchanges := exchanges ?b @
             [(Read (REG ''VERSION''), True), (Read (REG ''ERROR''), True)]\<rparr>)\<rparr> \<and>
      get_description 11 = Unknown_error"
    using h check_connection_fault_codes [of ?c ?b 7 7 11] by simp
  then show ?thesis
    by (simp add: prod_eq_iff get_description_values flaky_bus_def ServoController_init_def)
qed

text \<open>
  C8. \<open>stop_jog\<close> is idempotent. From every starting state (also without a transport, or
  with one that does not answer) one call puts exactly one write of STOP (5000) to the
  JOG register on the bus, returns whether it was answered, and leaves the direction
  Stopped and the speed as it was. A second call leaves direction and speed as the first
  call left them: all it does is put one more write of STOP to the JOG register on the
  bus, and return whether it was answered.
\<close>

theorem stop_jog_idempotent:
  "stop_jog c =
     (case instrument c of
        None \<Rightarrow> (False, c\<lparr>current_direction := None\<rparr>)
      | Some b \<Rightarrow>
          (respond b (length (exchanges b)) \<noteq> None,
           c\<lparr>instrument := Some (b\<lparr>exchanges := exchanges b @
                 [(Write (REG ''JOG'') (CMD ''STOP''),
                   respond b (length (exchanges b)) \<noteq> None)]\<rparr>),
             current_direction := None\<rparr>)) \<and>
   REG ''JOG'' = 1029 \<and> CMD ''STOP'' = 5000 \<and>
   current_direction (snd (stop_jog c)) = None \<and>
   current_speed (snd (stop_jog c)) = current_speed c \<and>
   current_direction (snd (stop_jog (snd (stop_jog c)))) = current_direction (snd (stop_jog c)) \<and>
   current_speed (snd (stop_jog (snd (stop_jog c)))) = current_speed (snd (stop_jog c)) \<and>
   (case instrument (snd (stop_jog c)) of
      None \<Rightarrow> stop_jog (snd (stop_jog c)) = (False, snd (stop_jog c))
    | Some b1 \<Rightarrow>
        stop_jog (snd (stop_jog c)) =
          (respond b1 (length (exchanges b1)) \<noteq> None,
           (snd (stop_jog c))\<lparr>instrument := Some (b1\<lparr>exchanges := exchanges b1 @
              [(Write (REG ''JOG'') (CMD ''STOP''),
                respond b1 (length (exchanges b1)) \<noteq> None)]\<rparr>)\<rparr>))"
proof (intro conjI)
  show "stop_jog c =
     (case instrument c of
        None \<Rightarrow> (False, c\<lparr>current_direction := None\<rparr>)
      | Some b \<Rightarrow>
          (respond b (length (exchanges b)) \<noteq> None,
           c\<lparr>instrument := Some (b\<lparr>exchanges := exchanges b @
                 [(Write (REG ''JOG'') (CMD ''STOP''),
                   respond b (length (exchanges b)) \<noteq> None)]\<rparr>),
             current_direction := None\<rparr>))"
    by (rule stop_jog_eq)
qed ((cases "instrument c"; simp add: stop_jog_eq)+)

text \<open>
  A controller moving forward, stopped twice on a transport that answers: the first call
  writes 5000 to register 1029 and ends Stopped, the second only repeats the write.
\<close>

theorem stop_jog_idempotent_witness:
  "stop_jog \<lparr>instrument = Some (flaky_bus 2 0), current_speed = 45,
             current_direction = Some Forward\<rparr> =
     (True, \<lparr>instrument = Some ((flaky_bus 2 0)\<lparr>exchanges := [(Write 1029 5000, True)]\<rparr>),
             current_speed = 45, current_direction = None\<rparr>) \<and>
   stop_jog (snd (stop_jog \<lparr>instrument = Some (flaky_bus 2 0), current_speed = 45,
             current_direction = Some Forward\<rparr>)) =
     (True, \<lparr>instrument = Some ((flaky_bus 2 0)\<lparr>exchanges :=
                [(Write 1029 5000, True), (Write 1029 5000, True)]\<rparr>),
             current_speed = 45, current_direction = None\<rparr>)"
proof -
  let ?c = "\<lparr>instrument = Some (flaky_bus 2 0), current_speed = 45,
             current_direction = Some Forward\<rparr>"
  let ?c1 = "\<lparr>instrument = Some ((flaky_bus 2 0)\<lparr>exchanges := [(Write 1029 5000, True)]\<rparr>),
              current_speed = 45, current_direction = None\<rparr>"
  have first: "stop_jog ?c = (True, ?c1)"
    using stop_jog_idempotent [of ?c] by (simp add: flaky_bus_def)
  have "stop_jog ?c1 =
     (True, \<lparr>instrument = Some ((flaky_bus 2 0)\<lparr>exchanges :=
                [(Write 1029 5000, True), (Write 1029 5000, True)]\<rparr>),
             current_speed = 45, current_direction = None\<rparr>)"
    using stop_jog_idempotent [of ?c1] by (simp add: flaky_bus_def)
  with first show ?thesis by simp
qed

text \<open>
  C9. \<open>close\<close> on a connected controller stops, then resets the speed: when both writes
  are answered, the bus sees the write of STOP and then the write of the seed speed 20,
  and the controller ends Stopped at speed 20. The state between the two writes is the
  one \<open>stop_jog\<close> leaves.
\<close>

theorem close_stops_then_resets_speed:
  assumes "instrument c = Some b" and "respond b (length (exchanges b)) = Some w1"
    and "respond b (Suc (length (exchanges b))) = Some w2"
  shows "close c =
     c\<lparr>instrument := Some (b\<lparr>exchanges := exchanges b @
           [(Write (REG ''JOG'') (CMD ''STOP''), True), (Write (REG ''JOG'') 20, True)]\<rparr>),
       current_speed := 20, current_direction := None\<rparr> \<and>
     snd (stop_jog c) =
       c\<lparr>instrument := Some (b\<lparr>exchanges := exchanges b @
           [(Write (REG ''JOG'') (CMD ''STOP''), True)]\<rparr>), current_direction := None\<rparr>"
proof -
  let ?b1 = "b\<lparr>exchanges := exchanges b @ [(Write (REG ''JOG'') (CMD ''STOP''), True)]\<rparr>"
  let ?c1 = "c\<lparr>instrument := Some ?b1, current_direction := None\<rparr>"
  have s: "snd (stop_jog c) = ?c1"
    using assms by (simp add: stop_jog_eq)
  have "set_jog_speed ?c1 20 =
     (True, ?c1\<lparr>instrument := Some (?b1\<lparr>exchanges :=
                  exchanges ?b1 @ [(Write (REG ''JOG'') (clamp_spec 20), True)]\<rparr>),
              current_speed := clamp_spec 20\<rparr>)"
    using assms by (intro set_jog_speed_stopped [where w = w2]) simp_all
  then show ?thesis
    using assms s by (simp add: close_def reset_speed_to_initial_def clamp_spec_def)
qed

text \<open>Closing a controller that runs in reverse at speed 145.\<close>

theorem close_stops_then_resets_speed_witness:
  "close \<lparr>instrument = Some (flaky_bus 2 0), current_speed = 145,
          current_direction = Some Reverse\<rparr> =
     \<lparr>instrument = Some ((flaky_bus 2 0)\<lparr>exchanges :=
          [(Write 1029 5000, True), (Write 1029 20, True)]\<rparr>),
      current_speed = 20, current_direction = None\<rparr>"
proof -
  let ?b = "flaky_bus 2 0"
  let ?c = "\<lparr>instrument = Some ?b, current_speed = 145, current_direction = Some Reverse\<rparr>"
  have a: "instrument ?c = Some ?b" by simp
  have r1: "respond ?b (length (exchanges ?b)) = Some 0" by (simp add: flaky_bus_def)
  have r2: "respond ?b (Suc (length (exchanges ?b))) = Some 0" by (simp add: flaky_bus_def)
  show ?thesis
    using close_stops_then_resets_speed [OF a r1 r2] by (simp add: flaky_bus_def)
qed

text \<open>
  C10. For every value \<open>v\<close> that is none of FORWARD, REVERSE and STOP, \<open>jog c v\<close> leaves
  \<open>current_direction\<close> (and \<open>current_speed\<close>) unchanged, and when the write succeeds
  (\<open>v\<close> fits the register and the exchange is answered) it returns \<open>True\<close> and the value
  written to the JOG register is \<open>v\<close> itself.
\<close>

theorem jog_other_value:
  assumes "v \<noteq> CMD ''FORWARD''" and "v \<noteq> CMD ''REVERSE''" and "v \<noteq> CMD ''STOP''"
  shows "current_direction (snd (jog c v)) = current_direction c \<and>
         current_speed (snd (jog c v)) = current_speed c \<and>
         (\<forall>b w. instrument c = Some b \<and> 0 \<le> v \<and> v \<le> 65535 \<and>
                respond b (length (exchanges b)) = Some w \<longrightarrow>
            jog c v = (True, c\<lparr>instrument :=
                          Some (b\<lparr>exchanges := exchanges b @ [(Write (REG ''JOG'') v, True)]\<rparr>)\<rparr>))"
proof -
  obtain r c1 where w: "write_register c (REG ''JOG'') v = (r, c1)"
    by (cases "write_register c (REG ''JOG'') v")
  have frame: "current_speed c1 = current_speed c \<and> current_direction c1 = current_direction c"
    using write_register_frame [of c "REG ''JOG''" v] w by simp
  have "snd (jog c v) = c1"
    using assms w by (cases r) (simp_all add: jog_def del: REG_values CMD_values)
  with frame have "current_direction (snd (jog c v)) = current_direction c"
    and "current_speed (snd (jog c v)) = current_speed c" by simp_all
  moreover have "jog c v = (True, c\<lparr>instrument :=
        Some (b\<lparr>exchanges := exchanges b @ [(Write (REG ''JOG'') v, True)]\<rparr>)\<rparr>)"
    if "instrument c = Some b" "0 \<le> v" "v \<le> 65535" "respond b (length (exchanges b)) = Some w"
    for b w
    using that assms by (simp add: jog_def write_register_def exchange_eq)
  ultimately show ?thesis by blast
qed

text \<open>The value 4997 sent while the controller moves forward.\<close>

theorem jog_other_value_witness:
  "(4997::int) \<noteq> CMD ''FORWARD'' \<and> (4997::int) \<noteq> CMD ''REVERSE'' \<and>
   (4997::int) \<noteq> CMD ''STOP'' \<and>
   jog \<lparr>instrument = Some (flaky_bus 1 0), current_speed = 20,
         current_direction = Some Forward\<rparr> 4997 =
     (True, \<lparr>instrument = Some ((flaky_bus 1 0)\<lparr>exchanges := [(Write 1029 4997, True)]\<rparr>),
             current_speed = 20, current_direction = Some Forward\<rparr>)"
proof -
  let ?b = "flaky_bus 1 0"
  let ?c = "\<lparr>instrument = Some ?b, current_speed = 20, current_direction = Some Forward\<rparr>"
  have h: "instrument ?c = Some ?b \<and> (0::int) \<le> 4997 \<and> (4997::int) \<le> 65535 \<and>
           respond ?b (length (exchanges ?b)) = Some 0"
    by (simp add: flaky_bus_def)
  have "jog ?c 4997 = (True, ?c\<lparr>instrument :=
          Some (?b\<lparr>exchanges := exchanges ?b @ [(Write (REG ''JOG'') 4997, True)]\<rparr>)\<rparr>)"
    using jog_other_value [of 4997 ?c] h by simp
  then show ?thesis by (simp add: flaky_bus_def)
qed

end
